theory Spec2Isabelle
  imports Complex_Main "HOL-Library.Product_Lexorder" "HOL-Library.Char_ord"
    "HOL-Library.List_Lexorder" "HOL-Library.Multiset"
begin

section \<open>FinTrack Pro: data model\<close>

text \<open>
  The program keeps four tables in an SQLite file and reaches them through an SQLAlchemy
  session. Each table is a list of rows in rowid order. Amounts are Python floats and
  SQLite REALs in the source; here they are real numbers, so rounding is not part of the
  model. A \<open>datetime.date\<close> is represented by its proleptic Gregorian ordinal
  (\<open>date.toordinal()\<close>): comparison, difference in days and adding a
  \<open>timedelta\<close> are then integer operations, with the range of the type written out.
  Strings are lists of 8-bit characters; \<open>strip\<close> and \<open>lower\<close> act on the ASCII
  range, and a character outside it counts as neither whitespace nor a capital letter.

  What the source reads from its surroundings is an argument of the model: \<open>today\<close>
  for \<open>date.today()\<close> and the month of \<open>datetime.now()\<close>, \<open>strptime\<close> and
  \<open>float\<close> for the parsers of the standard library, \<open>db\<close> for the rows in the
  database file when the operation starts, and \<open>fs\<close> for the outcomes of the commits
  the operation makes. An operation returns what it prints and, if it writes, the rows in
  the file when it ends.
\<close>

type_synonym date = int

record category =
  cat_id :: int
  cat_name :: string

record expense =
  expense_id :: int
  expense_title :: string
  expense_amount :: real
  expense_date :: date
  expense_category_id :: int

record budget =
  bud_id :: int
  bud_month :: string
  bud_limit :: real

record subscription =
  sub_id :: int
  sub_name :: string
  sub_amount :: real
  sub_next_date :: date

record database =
  categories :: "category list"
  expenses :: "expense list"
  budgets :: "budget list"
  subscriptions :: "subscription list"

datatype error = SQLAlchemyError | OverflowError | AttributeError

definition empty_db :: database where
  "empty_db = \<lparr>categories = [], expenses = [], budgets = [], subscriptions = []\<rparr>"

subsection \<open>Dates\<close>

text \<open>
  \<open>date.min\<close> has ordinal 1 and \<open>date.max\<close> (9999-12-31) has ordinal 3652059.
  \<open>timedelta(days=n)\<close> raises \<open>OverflowError\<close> beyond 999999999 days either
  way, and so does a sum that leaves the range of \<open>date\<close>.
\<close>

definition MINORDINAL :: int where
  "MINORDINAL = 1"

definition MAXORDINAL :: int where
  "MAXORDINAL = 3652059"

definition date_add :: "date \<Rightarrow> int \<Rightarrow> error + date" where
  "date_add d n =
     (if \<bar>n\<bar> > 999999999 then Inl OverflowError
      else if MINORDINAL \<le> d + n \<and> d + n \<le> MAXORDINAL then Inr (d + n)
      else Inl OverflowError)"

text \<open>
  The calendar of the proleptic Gregorian ordinal, as \<open>datetime\<close> computes it: year,
  month and day to ordinal, and ordinal to year and month. \<open>strftime_ym\<close> is the
  text \<open>YYYY-MM\<close> that both \<open>strftime('%Y-%m', date)\<close> in SQLite and
  \<open>datetime.now().strftime("%Y-%m")\<close> produce.
\<close>

definition is_leap :: "int \<Rightarrow> bool" where
  "is_leap y = (y mod 4 = 0 \<and> (y mod 100 \<noteq> 0 \<or> y mod 400 = 0))"

definition days_before_year :: "int \<Rightarrow> int" where
  "days_before_year year = (let y = year - 1 in y * 365 + y div 4 - y div 100 + y div 400)"

definition days_in_month_table :: "int list" where
  "days_in_month_table = [31, 28, 31, 30, 31, 30, 31, 31, 30, 31, 30, 31]"

definition days_before_month_table :: "int \<Rightarrow> int" where
  "days_before_month_table month = sum_list (take (nat (month - 1)) days_in_month_table)"

definition ymd2ord :: "int \<Rightarrow> int \<Rightarrow> int \<Rightarrow> date" where
  "ymd2ord year month day =
     days_before_year year + days_before_month_table month
       + (if month > 2 \<and> is_leap year then 1 else 0) + day"

definition ord2ym :: "date \<Rightarrow> int \<times> int" where
  "ord2ym ordinal =
     (let n = ordinal - 1;
          n400 = n div 146097; n = n mod 146097;
          n100 = n div 36524; n = n mod 36524;
          n4 = n div 1461; n = n mod 1461;
          n1 = n div 365; n = n mod 365;
          year = n400 * 400 + 1 + n100 * 100 + n4 * 4 + n1
      in if n1 = 4 \<or> n100 = 4 then (year - 1, 12)
         else
           (let leapyear = (n1 = 3 \<and> (n4 \<noteq> 24 \<or> n100 = 3));
                month = (n + 50) div 32;
                preceding = days_before_month_table month
                              + (if month > 2 \<and> leapyear then 1 else 0)
            in if preceding > n then (year, month - 1) else (year, month)))"

definition digit :: "int \<Rightarrow> char" where
  "digit n = ''0123456789'' ! nat (n mod 10)"

definition strftime_ym :: "date \<Rightarrow> string" where
  "strftime_ym d =
     (case ord2ym d of
        (y, m) \<Rightarrow> [digit (y div 1000), digit (y div 100), digit (y div 10), digit y,
                     CHR ''-'', digit (m div 10), digit m])"

definition get_current_month :: "date \<Rightarrow> string" where
  "get_current_month today = strftime_ym today"

subsection \<open>The session\<close>

text \<open>
  A session holds the rows of the database file (\<open>persisted\<close>), its own view with the
  pending changes (\<open>working\<close>), and the outcome of the commits still to come
  (\<open>faults\<close>, \<open>True\<close> for a write that the storage layer rejects; past the end of
  the list every write is accepted). A failed commit raises \<open>SQLAlchemyError\<close> and
  leaves the file as it was; \<open>rollback\<close> discards the pending changes; \<open>close\<close>
  gives back what the file holds.
\<close>

record session =
  persisted :: database
  working :: database
  faults :: "bool list"

definition Session :: "database \<Rightarrow> bool list \<Rightarrow> session" where
  "Session db fs = \<lparr>persisted = db, working = db, faults = fs\<rparr>"

definition commit :: "session \<Rightarrow> (error + unit) \<times> session" where
  "commit s =
     (if faults s \<noteq> [] \<and> hd (faults s)
      then (Inl SQLAlchemyError, s\<lparr>faults := tl (faults s)\<rparr>)
      else (Inr (), s\<lparr>persisted := working s, faults := tl (faults s)\<rparr>))"

definition rollback :: "session \<Rightarrow> session" where
  "rollback s = s\<lparr>working := persisted s\<rparr>"

definition close :: "session \<Rightarrow> database" where
  "close s = persisted s"

text \<open>SQLite gives a new row the largest rowid in use plus one, and 1 in an empty table.\<close>

definition next_id :: "int list \<Rightarrow> int" where
  "next_id ids = foldr max ids 0 + 1"

definition add_category :: "category \<Rightarrow> session \<Rightarrow> session" where
  "add_category c s = s\<lparr>working := (working s)\<lparr>categories := categories (working s) @ [c]\<rparr>\<rparr>"

definition add_expense_row :: "expense \<Rightarrow> session \<Rightarrow> session" where
  "add_expense_row e s = s\<lparr>working := (working s)\<lparr>expenses := expenses (working s) @ [e]\<rparr>\<rparr>"

definition add_budget_row :: "budget \<Rightarrow> session \<Rightarrow> session" where
  "add_budget_row b s = s\<lparr>working := (working s)\<lparr>budgets := budgets (working s) @ [b]\<rparr>\<rparr>"

subsection \<open>Strings\<close>

definition is_space :: "char \<Rightarrow> bool" where
  "is_space c =
     (c \<in> set [CHR 0x09, CHR 0x0A, CHR 0x0B, CHR 0x0C, CHR 0x0D,
                CHR 0x1C, CHR 0x1D, CHR 0x1E, CHR 0x1F, CHR '' ''])"

definition lower_char :: "char \<Rightarrow> char" where
  "lower_char c =
     (case map_of (zip ''ABCDEFGHIJKLMNOPQRSTUVWXYZ'' ''abcdefghijklmnopqrstuvwxyz'') c of
        Some d \<Rightarrow> d
      | None \<Rightarrow> c)"

definition strip :: "string \<Rightarrow> string" where
  "strip s = rev (dropWhile is_space (rev (dropWhile is_space s)))"

definition lower :: "string \<Rightarrow> string" where
  "lower s = map lower_char s"

subsection \<open>Helper functions\<close>

definition get_or_create_category :: "session \<Rightarrow> string \<Rightarrow> (error + category) \<times> session" where
  "get_or_create_category session name =
     (let name = lower (strip name) in
      case find (\<lambda>c. cat_name c = name) (categories (working session)) of
        Some cat \<Rightarrow> (Inr cat, session)
      | None \<Rightarrow>
          (let cat = \<lparr>cat_id = next_id (map cat_id (categories (working session))),
                      cat_name = name\<rparr>;
               session = add_category cat session
           in case commit session of
                (Inl e, session) \<Rightarrow> (Inl e, session)
              | (Inr _, session) \<Rightarrow> (Inr cat, session)))"

text \<open>
  \<open>strptime\<close> stands for \<open>datetime.strptime(_, "%Y-%m-%d").date()\<close>, with
  \<open>None\<close> for its \<open>ValueError\<close>.
\<close>

definition parse_date :: "(string \<Rightarrow> date option) \<Rightarrow> string \<Rightarrow> date option" where
  "parse_date strptime date_str = (if date_str = [] then None else strptime date_str)"

subsection \<open>What the operations print\<close>

text \<open>
  Each printed line is a value that carries the fields the line shows; rules, headings
  without data and the colours of the fixed messages are left out.
\<close>

datatype days_text = InDays int | TODAY | DaysOverdue int

datatype message =
    Added string real string date
  | Error error
  | NoExpensesYet
  | ExpenseRow int date string real string
  | InvalidStartDate
  | InvalidEndDate
  | NoExpensesFound
  | ExpensesFound nat
  | NoSpending string
  | CategoryReport string
  | CategoryLine string real
  | TotalLine real
  | NoBudgetSet string
  | BudgetStatus string real real real string string
  | BudgetSet string real
  | NoSubscriptionsDue int
  | SubscriptionLine string real date days_text string
  | TitleRequired
  | EnterValidPositiveAmount
  | CategoryRequired

text \<open>
  A row of a listing shows \<open>e.category.name\<close>; for an expense whose category row is
  missing \<open>e.category\<close> is \<open>None\<close> and the attribute access raises. An
  exception in the printing loop ends the operation: its result is the error.
\<close>

definition expense_line :: "database \<Rightarrow> expense \<Rightarrow> error + message" where
  "expense_line db e =
     (case find (\<lambda>c. cat_id c = expense_category_id e) (categories db) of
        None \<Rightarrow> Inl AttributeError
      | Some c \<Rightarrow> Inr (ExpenseRow (expense_id e) (expense_date e) (expense_title e) (expense_amount e) (cat_name c)))"

fun print_lines :: "('a \<Rightarrow> error + message) \<Rightarrow> 'a list \<Rightarrow> error + message list" where
  "print_lines f [] = Inr []"
| "print_lines f (x # xs) =
     (case f x of
        Inl e \<Rightarrow> Inl e
      | Inr m \<Rightarrow> (case print_lines f xs of Inl e \<Rightarrow> Inl e | Inr ms \<Rightarrow> Inr (m # ms)))"

subsection \<open>Core functions\<close>

definition add_expense ::
  "(string \<Rightarrow> date option) \<Rightarrow> date \<Rightarrow> bool list \<Rightarrow> string \<Rightarrow> real \<Rightarrow> string \<Rightarrow> string
     \<Rightarrow> database \<Rightarrow> message list \<times> database" where
  "add_expense strptime today fs title amount category_name exp_date db =
     (let session = Session db fs in
      case (case get_or_create_category session category_name of
              (Inl e, session) \<Rightarrow> (Inl e, session)
            | (Inr cat, session) \<Rightarrow>
                (let d = (case parse_date strptime exp_date of Some d \<Rightarrow> d | None \<Rightarrow> today);
                     expense = \<lparr>expense_id = next_id (map expense_id (expenses (working session))),
                                expense_title = strip title, expense_amount = amount, expense_date = d,
                                expense_category_id = cat_id cat\<rparr>;
                     session = add_expense_row expense session
                 in case commit session of
                      (Inl e, session) \<Rightarrow> (Inl e, session)
                    | (Inr _, session) \<Rightarrow> (Inr [Added title amount (cat_name cat) d], session)))
      of
        (Inl e, session) \<Rightarrow> ([Error e], close (rollback session))
      | (Inr out, session) \<Rightarrow> (out, close session))"

text \<open>
  \<open>ORDER BY\<close> is a stable sort of the table scan, so rows that the sort key does not
  tell apart stay in rowid order. \<open>LIMIT n\<close> with a negative \<open>n\<close> is no limit in
  SQLite.
\<close>

definition sql_limit :: "int \<Rightarrow> 'a list \<Rightarrow> 'a list" where
  "sql_limit n rows = (if n < 0 then rows else take (nat n) rows)"

definition list_expenses :: "int \<Rightarrow> database \<Rightarrow> error + message list" where
  "list_expenses limit db =
     (let exps = sql_limit limit (sort_key (\<lambda>e. (- expense_date e, - expense_id e)) (expenses db)) in
      if exps = [] then Inr [NoExpensesYet]
      else print_lines (expense_line db) exps)"

definition search_expenses ::
  "(string \<Rightarrow> date option) \<Rightarrow> string \<Rightarrow> string \<Rightarrow> database \<Rightarrow> error + message list" where
  "search_expenses strptime start_date end_date db =
     (let query = sort_key (\<lambda>e. - expense_date e) (expenses db);
          (query, out1) =
            (if start_date \<noteq> [] then
               (case parse_date strptime start_date of
                  Some sd \<Rightarrow> (filter (\<lambda>e. expense_date e \<ge> sd) query, [])
                | None \<Rightarrow> (query, [InvalidStartDate]))
             else (query, []));
          (query, out2) =
            (if end_date \<noteq> [] then
               (case parse_date strptime end_date of
                  Some ed \<Rightarrow> (filter (\<lambda>e. expense_date e \<le> ed) query, [])
                | None \<Rightarrow> (query, [InvalidEndDate]))
             else (query, []));
          results = query
      in if results = [] then Inr (out1 @ out2 @ [NoExpensesFound])
         else (case print_lines (expense_line db) results of
                 Inl e \<Rightarrow> Inl e
               | Inr ls \<Rightarrow> Inr (out1 @ out2 @ [ExpensesFound (length results)] @ ls)))"






definition set_budget ::
  "real \<Rightarrow> string \<Rightarrow> date \<Rightarrow> bool list \<Rightarrow> database \<Rightarrow> message list \<times> database" where
  "set_budget limit month today fs db =
     (let month = (if month = [] then get_current_month today else month);
          session = Session db fs;
          session =
            (case find (\<lambda>b. bud_month b = month) (budgets (working session)) of
               Some b \<Rightarrow>
                 session\<lparr>working := (working session)\<lparr>budgets :=
                   map (\<lambda>x. if bud_id x = bud_id b then x\<lparr>bud_limit := limit\<rparr> else x)
                       (budgets (working session))\<rparr>\<rparr>
             | None \<Rightarrow>
                 add_budget_row
                   \<lparr>bud_id = next_id (map bud_id (budgets (working session))),
                    bud_month = month, bud_limit = limit\<rparr> session)
      in case commit session of
           (Inr _, session) \<Rightarrow> ([BudgetSet month limit], close session)
         | (Inl e, session) \<Rightarrow> ([Error e], close (rollback session)))"

definition subscription_line :: "date \<Rightarrow> subscription \<Rightarrow> message" where
  "subscription_line today s =
     (let days_left = sub_next_date s - today;
          days_text = (if days_left > 0 then InDays days_left
                       else if days_left = 0 then TODAY else DaysOverdue (- days_left));
          color_code = (if days_left \<le> 0 then ''red''
                        else if days_left \<le> 7 then ''yellow'' else ''green'')
      in SubscriptionLine (sub_name s) (sub_amount s) (sub_next_date s) days_text color_code)"

definition list_upcoming_subscriptions :: "int \<Rightarrow> date \<Rightarrow> database \<Rightarrow> error + message list" where
  "list_upcoming_subscriptions days today db =
     (case date_add today days of
        Inl e \<Rightarrow> Inl e
      | Inr soon \<Rightarrow>
          (let subs = sort_key sub_next_date
                        (filter (\<lambda>s. sub_next_date s \<le> soon) (subscriptions db))
           in if subs = [] then Inr [NoSubscriptionsDue days]
              else Inr (map (subscription_line today) subs)))"

subsection \<open>The menu's Add Expense action\<close>

text \<open>
  Choice 1 of \<open>main\<close>, as a function of the four lines the user types.
  \<open>float\<close> stands for Python's \<open>float()\<close>, with \<open>None\<close> for its
  \<open>ValueError\<close>. A line is only read once the ones before it passed their checks.
\<close>

definition main_choice_1 ::
  "(string \<Rightarrow> date option) \<Rightarrow> (string \<Rightarrow> real option) \<Rightarrow> date \<Rightarrow> bool list
     \<Rightarrow> string \<Rightarrow> string \<Rightarrow> string \<Rightarrow> string \<Rightarrow> database \<Rightarrow> message list \<times> database" where
  "main_choice_1 strptime float today fs title_input amount_input category_input date_input db =
     (let title = strip title_input in
      if title = [] then ([TitleRequired], db)
      else
        (case float amount_input of
           None \<Rightarrow> ([EnterValidPositiveAmount], db)
         | Some amount \<Rightarrow>
             if amount \<le> 0 then ([EnterValidPositiveAmount], db)
             else
               (let category = strip category_input in
                if category = [] then ([CategoryRequired], db)
                else
                  (let date_str = strip date_input
                   in add_expense strptime today fs title amount category date_str db))))"

subsection \<open>Vocabulary of the properties\<close>

text \<open>The row that \<open>get_or_create_category\<close> inserts for a name that is not there yet.\<close>

definition new_category :: "database \<Rightarrow> string \<Rightarrow> category" where
  "new_category db name =
     \<lparr>cat_id = next_id (map cat_id (categories db)), cat_name = lower (strip name)\<rparr>"

text \<open>
  The invariants of the data model that the reports rely on: category ids are unique,
  every expense has a positive amount and refers to a category row.
\<close>

definition valid_db :: "database \<Rightarrow> bool" where
  "valid_db db =
     (distinct (map cat_id (categories db))
      \<and> list_all (\<lambda>e. expense_amount e > 0
                        \<and> expense_category_id e \<in> set (map cat_id (categories db)))
           (expenses db))"

text \<open>The id and date of the expense rows among the printed lines, in the order printed.\<close>

fun row_id_date :: "message \<Rightarrow> (int \<times> date) option" where
  "row_id_date (ExpenseRow i d t a c) = Some (i, d)"
| "row_id_date _ = None"

definition listed :: "message list \<Rightarrow> (int \<times> date) list" where
  "listed out = List.map_filter row_id_date out"

text \<open>Date descending, and id descending among rows of one date.\<close>

definition date_desc_id_desc :: "(int \<times> date) list \<Rightarrow> bool" where
  "date_desc_id_desc rows =
     sorted_wrt (\<lambda>a b. snd a > snd b \<or> (snd a = snd b \<and> fst a \<ge> fst b)) rows"

text \<open>A sequence of \<open>set_budget\<close> calls, each with its limit, month, day and write outcomes.\<close>

fun set_budgets :: "(real \<times> string \<times> date \<times> bool list) list \<Rightarrow> database \<Rightarrow> database" where
  "set_budgets [] db = db"
| "set_budgets ((limit, month, today, fs) # calls) db =
     set_budgets calls (snd (set_budget limit month today fs db))"

text \<open>
  The month a call of \<open>set_budget\<close> is about, and the rows after the limit of the found
  row \<open>b\<close> has been overwritten (the update goes by the row's id).
\<close>

definition effective_month :: "string \<Rightarrow> date \<Rightarrow> string" where
  "effective_month month today = (if month = [] then get_current_month today else month)"

definition overwrite_limit :: "budget \<Rightarrow> real \<Rightarrow> budget list \<Rightarrow> budget list" where
  "overwrite_limit b limit bs =
     map (\<lambda>x. if bud_id x = bud_id b then x\<lparr>bud_limit := limit\<rparr> else x) bs"



subsection \<open>Sample databases\<close>



definition same_day_db :: database where
  "same_day_db =
     \<lparr>categories = [\<lparr>cat_id = 1, cat_name = ''food''\<rparr>],
      expenses =
        [\<lparr>expense_id = 1, expense_title = ''Coffee'', expense_amount = 150,
          expense_date = ymd2ord 2024 1 5, expense_category_id = 1\<rparr>,
         \<lparr>expense_id = 2, expense_title = ''Lunch'', expense_amount = 350,
          expense_date = ymd2ord 2024 1 5, expense_category_id = 1\<rparr>],
      budgets = [], subscriptions = []\<rparr>"

definition subscriptions_db :: database where
  "subscriptions_db =
     \<lparr>categories = [], expenses = [], budgets = [],
      subscriptions =
        [\<lparr>sub_id = 1, sub_name = ''Netflix'', sub_amount = 499,
          sub_next_date = ymd2ord 2024 1 8\<rparr>,
         \<lparr>sub_id = 2, sub_name = ''Gym'', sub_amount = 1200,
          sub_next_date = ymd2ord 2024 1 2\<rparr>,
         \<lparr>sub_id = 3, sub_name = ''Insurance'', sub_amount = 9000,
          sub_next_date = ymd2ord 2024 3 1\<rparr>,
         \<lparr>sub_id = 4, sub_name = ''Cloud'', sub_amount = 130,
          sub_next_date = ymd2ord 2024 1 25\<rparr>]\<rparr>"

text \<open>A date parser that rejects every input.\<close>

definition no_date :: "string \<Rightarrow> date option" where
  "no_date s = None"

text \<open>A reading of the typed amount that knows two inputs.\<close>

definition sample_float :: "string \<Rightarrow> real option" where
  "sample_float s = (if s = ''-5'' then Some (- 5) else if s = ''150'' then Some 150 else None)"

section \<open>The calendar on some dates\<close>

lemma calendar_range:
  "ymd2ord 1 1 1 = MINORDINAL" "ymd2ord 9999 12 31 = MAXORDINAL"
  by code_simp+

lemma calendar_months:
  "map strftime_ym
     [ymd2ord 1 1 1, ymd2ord 1900 2 28, ymd2ord 1900 3 1, ymd2ord 2000 2 29, ymd2ord 2023 12 31,
      ymd2ord 2024 1 1, ymd2ord 2024 2 29, ymd2ord 2024 3 1, ymd2ord 2024 12 31,
      ymd2ord 2026 11 3, ymd2ord 9999 12 31]
   = [''0001-01'', ''1900-02'', ''1900-03'', ''2000-02'', ''2023-12'',
      ''2024-01'', ''2024-02'', ''2024-03'', ''2024-12'',
      ''2026-11'', ''9999-12'']"
  by code_simp

section \<open>Category resolution\<close>






lemma find_append:
  "find P (xs @ ys) = (case find P xs of Some x \<Rightarrow> Some x | None \<Rightarrow> find P ys)"
  by (induction xs) auto


lemma goc_found:
  "find (\<lambda>c. cat_name c = lower (strip name)) (categories (working s)) = Some c \<Longrightarrow>
   get_or_create_category s name = (Inr c, s)"
  by (simp add: get_or_create_category_def)







section \<open>Budget status\<close>





section \<open>Adding an expense\<close>

text \<open>
  Claim C3, at the input where the code departs from it. The database is empty, the
  category \<open>Food\<close> is new, the write of the category row is accepted and the write of the
  expense row is rejected. \<open>add_expense\<close> reports the error and stores no expense, but
  the category row that \<open>get_or_create_category\<close> committed on the way stays in the
  database.
\<close>

theorem add_expense_failed_write_keeps_category:
  "add_expense no_date (ymd2ord 2024 1 5) [False, True] ''Coffee'' 150 ''Food'' [] empty_db
   = ([Error SQLAlchemyError],
      \<lparr>categories = [\<lparr>cat_id = 1, cat_name = ''food''\<rparr>], expenses = [], budgets = [],
       subscriptions = []\<rparr>)"
  by code_simp

text \<open>
  What does hold when a write is rejected: no expense row is stored, budgets and
  subscriptions are untouched, and the categories are the old ones, followed by the new
  category only if that one was committed before the failure. When the category exists
  already the database is left exactly as it was.
\<close>

lemma add_expense_error_rollback:
  assumes "fst (add_expense strptime today fs title amount category_name exp_date db) = [Error e]"
  shows "expenses (snd (add_expense strptime today fs title amount category_name exp_date db))
           = expenses db
       \<and> budgets (snd (add_expense strptime today fs title amount category_name exp_date db))
           = budgets db
       \<and> subscriptions (snd (add_expense strptime today fs title amount category_name exp_date db))
           = subscriptions db
       \<and> (categories (snd (add_expense strptime today fs title amount category_name exp_date db))
            = categories db
          \<or> categories (snd (add_expense strptime today fs title amount category_name exp_date db))
            = categories db @ [new_category db category_name])"
  using assms
  by (auto simp add: add_expense_def get_or_create_category_def Session_def commit_def
      rollback_def close_def add_category_def add_expense_row_def new_category_def Let_def
      split: option.splits if_splits prod.splits sum.splits)

lemma add_expense_error_existing_category:
  assumes "fst (add_expense strptime today fs title amount category_name exp_date db) = [Error e]"
    and "find (\<lambda>c. cat_name c = lower (strip category_name)) (categories db) \<noteq> None"
  shows "snd (add_expense strptime today fs title amount category_name exp_date db) = db"
  using assms
  by (auto simp add: add_expense_def get_or_create_category_def Session_def commit_def
      rollback_def close_def add_category_def add_expense_row_def Let_def
      split: option.splits if_splits prod.splits sum.splits)

text \<open>
  Claim C4 as stated fails: \<open>add_expense\<close> does not look at the amount. Called on the
  empty database with the amount -5 it stores a category row and an expense row and
  reports success.
\<close>

theorem add_expense_accepts_negative_amount:
  "add_expense no_date (ymd2ord 2024 1 5) [] ''Refund'' (- 5) ''Food'' [] empty_db
   = ([Added ''Refund'' (- 5) ''food'' (ymd2ord 2024 1 5)],
      \<lparr>categories = [\<lparr>cat_id = 1, cat_name = ''food''\<rparr>],
       expenses = [\<lparr>expense_id = 1, expense_title = ''Refund'', expense_amount = - 5,
                    expense_date = ymd2ord 2024 1 5, expense_category_id = 1\<rparr>],
       budgets = [], subscriptions = []\<rparr>)"
  by code_simp

text \<open>
  Claim C4, amended. The check is in the menu: when the amount typed for choice 1 reads as
  a number that is zero or negative, the action stores nothing, does not call
  \<open>add_expense\<close>, and reports a validation failure: ``Enter a valid positive amount.'',
  or ``Title is required.'' when the title is blank, in which case the amount is not even
  asked for.
\<close>

theorem menu_rejects_non_positive_amount:
  assumes "float amount_input = Some amount" and "amount \<le> 0"
  shows "main_choice_1 strptime float today fs title_input amount_input category_input
           date_input db
         = ([if strip title_input = [] then TitleRequired else EnterValidPositiveAmount], db)"
  using assms by (simp add: main_choice_1_def)

theorem menu_rejects_non_positive_amount_witness:
  "sample_float ''-5'' = Some (- 5) \<and> (- 5 :: real) \<le> 0
   \<and> main_choice_1 no_date sample_float (ymd2ord 2024 1 5) [] ''Refund'' ''-5'' ''Food'' []
         empty_db
       = ([EnterValidPositiveAmount], empty_db)"
proof -
  have h1: "sample_float ''-5'' = Some (- 5)" by (simp add: sample_float_def)
  have h2: "(- 5 :: real) \<le> 0" by simp
  have t: "strip ''Refund'' \<noteq> []" by (simp add: strip_def is_space_def)
  show ?thesis
    using menu_rejects_non_positive_amount [where float = sample_float
        and amount_input = "''-5''" and amount = "- 5" and strptime = no_date
        and today = "ymd2ord 2024 1 5" and fs = "[]" and title_input = "''Refund''"
        and category_input = "''Food''" and date_input = "[]" and db = empty_db] h1 h2 t
    by simp
qed

section \<open>Listing and searching expenses\<close>

lemma print_lines_listed:
  "print_lines (expense_line db) exps = Inr ms \<Longrightarrow>
   listed ms = map (\<lambda>e. (expense_id e, expense_date e)) exps"
proof (induction exps arbitrary: ms)
  case Nil
  then show ?case by (simp add: listed_def List.map_filter_simps)
next
  case (Cons e exps)
  from Cons.prems obtain m ms' where
    m: "expense_line db e = Inr m" and ms': "print_lines (expense_line db) exps = Inr ms'"
    and ms: "ms = m # ms'"
    by (auto split: sum.splits)
  from m have "row_id_date m = Some (expense_id e, expense_date e)"
    by (auto simp add: expense_line_def split: option.splits)
  moreover have "listed ms' = map (\<lambda>e. (expense_id e, expense_date e)) exps"
    using Cons.IH [OF ms'] .
  ultimately show ?case
    by (simp add: ms listed_def List.map_filter_simps)
qed











text \<open>
  Claim C2, at the input where the code departs from it. The query of
  \<open>search_expenses\<close> orders by date only. Two expenses of the same day come out in rowid
  order, expense 1 before expense 2, while \<open>list_expenses\<close> prints expense 2 first.
\<close>

theorem search_expenses_ties_not_id_descending:
  "search_expenses no_date [] [] same_day_db
     = Inr [ExpensesFound 2,
            ExpenseRow 1 (ymd2ord 2024 1 5) ''Coffee'' 150 ''food'',
            ExpenseRow 2 (ymd2ord 2024 1 5) ''Lunch'' 350 ''food'']
   \<and> list_expenses 15 same_day_db
     = Inr [ExpenseRow 2 (ymd2ord 2024 1 5) ''Lunch'' 350 ''food'',
            ExpenseRow 1 (ymd2ord 2024 1 5) ''Coffee'' 150 ''food'']
   \<and> \<not> date_desc_id_desc (listed [ExpensesFound 2,
            ExpenseRow 1 (ymd2ord 2024 1 5) ''Coffee'' 150 ''food'',
            ExpenseRow 2 (ymd2ord 2024 1 5) ''Lunch'' 350 ''food''])"
  by code_simp

section \<open>Upcoming subscriptions\<close>

lemma date_add_in_range:
  "\<bar>n\<bar> \<le> 999999999 \<Longrightarrow> MINORDINAL \<le> d + n \<Longrightarrow> d + n \<le> MAXORDINAL \<Longrightarrow>
   date_add d n = Inr (d + n)"
  by (simp add: date_add_def)

text \<open>
  Claim C9, amended. For every \<open>days\<close> for which \<open>today + days\<close> is a date (at most
  999999999 days away and between 0001-01-01 and 9999-12-31), the function lists exactly
  the subscriptions with \<open>next_date \<le> today + days\<close>, overdue ones included, ordered by
  \<open>next_date\<close> ascending, or reports that none is due. Each line is classified by
  \<open>days_left = next_date - today\<close>: red for \<open>days_left \<le> 0\<close>, with the text \<open>TODAY!\<close>
  on day 0 and the number of days overdue before it; yellow for 1 to 7 days left; green
  for more than 7.
\<close>

theorem upcoming_subscriptions:
  assumes "\<bar>days\<bar> \<le> 999999999" and "MINORDINAL \<le> today + days"
    and "today + days \<le> MAXORDINAL"
  shows "\<exists>subs.
           list_upcoming_subscriptions days today db
             = Inr (if subs = [] then [NoSubscriptionsDue days]
                    else map (subscription_line today) subs)
         \<and> mset subs = mset (filter (\<lambda>s. sub_next_date s \<le> today + days) (subscriptions db))
         \<and> sorted (map sub_next_date subs)
         \<and> (\<forall>s. \<exists>days_text color_code.
               subscription_line today s
                 = SubscriptionLine (sub_name s) (sub_amount s) (sub_next_date s)
                     days_text color_code
               \<and> (sub_next_date s - today < 0 \<longrightarrow>
                    color_code = ''red'' \<and> days_text = DaysOverdue (today - sub_next_date s))
               \<and> (sub_next_date s - today = 0 \<longrightarrow> color_code = ''red'' \<and> days_text = TODAY)
               \<and> (1 \<le> sub_next_date s - today \<and> sub_next_date s - today \<le> 7 \<longrightarrow>
                    color_code = ''yellow'' \<and> days_text = InDays (sub_next_date s - today))
               \<and> (7 < sub_next_date s - today \<longrightarrow>
                    color_code = ''green'' \<and> days_text = InDays (sub_next_date s - today)))"
proof -
  let ?subs = "sort_key sub_next_date
                 (filter (\<lambda>s. sub_next_date s \<le> today + days) (subscriptions db))"
  have 1: "list_upcoming_subscriptions days today db
             = Inr (if ?subs = [] then [NoSubscriptionsDue days]
                    else map (subscription_line today) ?subs)"
    by (simp add: list_upcoming_subscriptions_def date_add_in_range [OF assms] Let_def)
  have 2: "mset ?subs = mset (filter (\<lambda>s. sub_next_date s \<le> today + days) (subscriptions db))"
    by simp
  have 3: "sorted (map sub_next_date ?subs)"
    by (rule sorted_sort_key)
  have 4: "\<exists>days_text color_code.
               subscription_line today s
                 = SubscriptionLine (sub_name s) (sub_amount s) (sub_next_date s)
                     days_text color_code
               \<and> (sub_next_date s - today < 0 \<longrightarrow>
                    color_code = ''red'' \<and> days_text = DaysOverdue (today - sub_next_date s))
               \<and> (sub_next_date s - today = 0 \<longrightarrow> color_code = ''red'' \<and> days_text = TODAY)
               \<and> (1 \<le> sub_next_date s - today \<and> sub_next_date s - today \<le> 7 \<longrightarrow>
                    color_code = ''yellow'' \<and> days_text = InDays (sub_next_date s - today))
               \<and> (7 < sub_next_date s - today \<longrightarrow>
                    color_code = ''green'' \<and> days_text = InDays (sub_next_date s - today))" for s
    by (simp add: subscription_line_def Let_def)
  show ?thesis
    by (rule exI [of _ ?subs]) (intro conjI allI 1 2 3 4)
qed

lemma january_listing:
  "list_upcoming_subscriptions 30 (ymd2ord 2024 1 5) subscriptions_db
     = Inr [SubscriptionLine ''Gym'' 1200 (ymd2ord 2024 1 2) (DaysOverdue 3) ''red'',
            SubscriptionLine ''Netflix'' 499 (ymd2ord 2024 1 8) (InDays 3) ''yellow'',
            SubscriptionLine ''Cloud'' 130 (ymd2ord 2024 1 25) (InDays 20) ''green'']"
  by code_simp

theorem upcoming_subscriptions_witness:
  "\<bar>30 :: int\<bar> \<le> 999999999 \<and> MINORDINAL \<le> ymd2ord 2024 1 5 + 30
   \<and> ymd2ord 2024 1 5 + 30 \<le> MAXORDINAL
   \<and> (\<exists>subs.
         list_upcoming_subscriptions 30 (ymd2ord 2024 1 5) subscriptions_db
           = Inr (if subs = [] then [NoSubscriptionsDue 30]
                  else map (subscription_line (ymd2ord 2024 1 5)) subs)
         \<and> mset subs = mset (filter (\<lambda>s. sub_next_date s \<le> ymd2ord 2024 1 5 + 30)
                               (subscriptions subscriptions_db))
         \<and> sorted (map sub_next_date subs))
   \<and> list_upcoming_subscriptions 30 (ymd2ord 2024 1 5) subscriptions_db
     = Inr [SubscriptionLine ''Gym'' 1200 (ymd2ord 2024 1 2) (DaysOverdue 3) ''red'',
            SubscriptionLine ''Netflix'' 499 (ymd2ord 2024 1 8) (InDays 3) ''yellow'',
            SubscriptionLine ''Cloud'' 130 (ymd2ord 2024 1 25) (InDays 20) ''green'']"
proof -
  have h1: "\<bar>30 :: int\<bar> \<le> 999999999" by simp
  have h2: "MINORDINAL \<le> ymd2ord 2024 1 5 + 30" by code_simp
  have h3: "ymd2ord 2024 1 5 + 30 \<le> MAXORDINAL" by code_simp
  have "\<exists>subs.
         list_upcoming_subscriptions 30 (ymd2ord 2024 1 5) subscriptions_db
           = Inr (if subs = [] then [NoSubscriptionsDue 30]
                  else map (subscription_line (ymd2ord 2024 1 5)) subs)
         \<and> mset subs = mset (filter (\<lambda>s. sub_next_date s \<le> ymd2ord 2024 1 5 + 30)
                               (subscriptions subscriptions_db))
         \<and> sorted (map sub_next_date subs)"
    using upcoming_subscriptions [OF h1 h2 h3, of subscriptions_db] by blast
  then show ?thesis
    using h1 h2 h3 january_listing by blast
qed

text \<open>
  Claim C9 as stated fails for a \<open>days\<close> that takes \<open>today + days\<close> past 9999-12-31:
  the sum raises \<open>OverflowError\<close> and nothing is listed, although subscriptions are due
  before that day.
\<close>

theorem upcoming_subscriptions_overflow:
  "list_upcoming_subscriptions 3000000 (ymd2ord 2024 1 5) subscriptions_db = Inl OverflowError
   \<and> filter (\<lambda>s. sub_next_date s \<le> ymd2ord 2024 1 5 + 3000000) (subscriptions subscriptions_db)
       = subscriptions subscriptions_db
   \<and> length (subscriptions subscriptions_db) = 4"
  by code_simp

section \<open>Setting a budget\<close>

lemma set_budget_rejected:
  "fs \<noteq> [] \<Longrightarrow> hd fs \<Longrightarrow>
   set_budget limit month today fs db = ([Error SQLAlchemyError], db)"
  by (simp add: set_budget_def Session_def commit_def rollback_def close_def add_budget_row_def
      Let_def split: option.splits)

lemma set_budget_existing:
  assumes "find (\<lambda>b. bud_month b = effective_month month today) (budgets db) = Some b"
    and "fs = [] \<or> \<not> hd fs"
  shows "set_budget limit month today fs db
         = ([BudgetSet (effective_month month today) limit],
            db\<lparr>budgets := overwrite_limit b limit (budgets db)\<rparr>)"
  using assms
  by (auto simp add: set_budget_def Session_def commit_def close_def Let_def
      effective_month_def overwrite_limit_def)

lemma set_budget_new:
  assumes "find (\<lambda>b. bud_month b = effective_month month today) (budgets db) = None"
    and "fs = [] \<or> \<not> hd fs"
  shows "set_budget limit month today fs db
         = ([BudgetSet (effective_month month today) limit],
            db\<lparr>budgets := budgets db @
                 [\<lparr>bud_id = next_id (map bud_id (budgets db)),
                   bud_month = effective_month month today, bud_limit = limit\<rparr>]\<rparr>)"
  using assms
  by (auto simp add: set_budget_def Session_def commit_def close_def Let_def
      effective_month_def add_budget_row_def)

lemma overwrite_limit_months [simp]:
  "map bud_month (overwrite_limit b limit bs) = map bud_month bs"
  by (induction bs) (simp_all add: overwrite_limit_def)

lemma overwrite_limit_ids [simp]:
  "map bud_id (overwrite_limit b limit bs) = map bud_id bs"
  by (induction bs) (simp_all add: overwrite_limit_def)

lemma find_overwrite_limit:
  "find (\<lambda>x. bud_month x = m) bs = Some b \<Longrightarrow>
   find (\<lambda>x. bud_month x = m) (overwrite_limit b limit bs) = Some (b\<lparr>bud_limit := limit\<rparr>)"
  by (induction bs) (auto simp add: overwrite_limit_def split: if_splits)

lemma overwrite_limit_twice:
  "overwrite_limit (b\<lparr>bud_limit := limit\<rparr>) limit (overwrite_limit b limit bs)
   = overwrite_limit b limit bs"
  by (induction bs) (simp_all add: overwrite_limit_def)

lemma set_budget_distinct_months:
  assumes "distinct (map bud_month (budgets db))"
  shows "distinct (map bud_month (budgets (snd (set_budget limit month today fs db))))"
proof (cases "fs \<noteq> [] \<and> hd fs")
  case True
  then show ?thesis using assms by (simp add: set_budget_rejected)
next
  case False
  then have ok: "fs = [] \<or> \<not> hd fs" by auto
  show ?thesis
  proof (cases "find (\<lambda>b. bud_month b = effective_month month today) (budgets db)")
    case None
    then have "effective_month month today \<notin> set (map bud_month (budgets db))"
      by (auto simp add: find_None_iff)
    then show ?thesis
      using assms by (simp add: set_budget_new [OF None ok])
  next
    case (Some b)
    show ?thesis
      using assms by (simp add: set_budget_existing [OF Some ok])
  qed
qed

lemma set_budgets_distinct_months:
  "distinct (map bud_month (budgets db)) \<Longrightarrow>
   distinct (map bud_month (budgets (set_budgets calls db)))"
proof (induction calls arbitrary: db)
  case Nil
  then show ?case by simp
next
  case (Cons call calls)
  obtain limit month today fs where call: "call = (limit, month, today, fs)"
    by (cases call) auto
  show ?case
    unfolding call set_budgets.simps
    by (rule Cons.IH) (rule set_budget_distinct_months [OF Cons.prems])
qed

lemma set_budget_repeat:
  "snd (set_budget limit month today fs (snd (set_budget limit month today [] db)))
   = snd (set_budget limit month today [] db)"
proof -
  let ?m = "effective_month month today"
  let ?db1 = "snd (set_budget limit month today [] db)"
  have "\<exists>b. find (\<lambda>x. bud_month x = ?m) (budgets ?db1) = Some b
            \<and> overwrite_limit b limit (budgets ?db1) = budgets ?db1"
  proof (cases "find (\<lambda>b. bud_month b = ?m) (budgets db)")
    case None
    let ?new = "\<lparr>bud_id = next_id (map bud_id (budgets db)), bud_month = ?m, bud_limit = limit\<rparr>"
    have id_le: "i \<in> set ids \<Longrightarrow> i < next_id ids" for i ids
      by (induction ids) (auto simp add: next_id_def)
    have "overwrite_limit ?new limit (budgets db) = budgets db"
      unfolding overwrite_limit_def
      by (rule map_idI) (use id_le [of _ "map bud_id (budgets db)"] in force)
    then have "overwrite_limit ?new limit (budgets db @ [?new]) = budgets db @ [?new]"
      by (simp add: overwrite_limit_def)
    moreover have "find (\<lambda>x. bud_month x = ?m) (budgets db @ [?new]) = Some ?new"
      using None by (simp add: find_append)
    ultimately show ?thesis
      by (simp add: set_budget_new [OF None])
  next
    case (Some b)
    show ?thesis
      by (simp add: set_budget_existing [OF Some] find_overwrite_limit [OF Some]
          overwrite_limit_twice)
  qed
  then obtain b where f: "find (\<lambda>x. bud_month x = ?m) (budgets ?db1) = Some b"
    and o: "overwrite_limit b limit (budgets ?db1) = budgets ?db1"
    by blast
  show ?thesis
  proof (cases "fs \<noteq> [] \<and> hd fs")
    case True
    then show ?thesis by (simp add: set_budget_rejected)
  next
    case False
    then have ok: "fs = [] \<or> \<not> hd fs" by auto
    show ?thesis
      by (simp add: set_budget_existing [OF f ok] o)
  qed
qed


text \<open>
  Claim C8. Starting from a database with at most one budget row per month (the empty one,
  for instance), any sequence of \<open>set_budget\<close> calls, with accepted and rejected writes,
  ends with at most one budget row per month. A call for a month that has a row keeps the
  rows, their ids and their months, and that row carries the new limit; a call for a month
  without a row appends one. Once a call has gone through, repeating it with the same
  month and limit leaves the database as it is.
\<close>

theorem set_budget_one_row_per_month:
  assumes "distinct (map bud_month (budgets db))"
  shows "distinct (map bud_month (budgets (set_budgets calls db)))
       \<and> (\<forall>b. find (\<lambda>b. bud_month b = effective_month month today) (budgets db) = Some b \<longrightarrow>
              budgets (snd (set_budget limit month today [] db))
                = overwrite_limit b limit (budgets db)
            \<and> length (budgets (snd (set_budget limit month today [] db))) = length (budgets db)
            \<and> map bud_id (budgets (snd (set_budget limit month today [] db)))
                = map bud_id (budgets db)
            \<and> map bud_month (budgets (snd (set_budget limit month today [] db)))
                = map bud_month (budgets db)
            \<and> find (\<lambda>b. bud_month b = effective_month month today)
                 (budgets (snd (set_budget limit month today [] db)))
                = Some (b\<lparr>bud_limit := limit\<rparr>))
       \<and> (find (\<lambda>b. bud_month b = effective_month month today) (budgets db) = None \<longrightarrow>
              budgets (snd (set_budget limit month today [] db))
                = budgets db @ [\<lparr>bud_id = next_id (map bud_id (budgets db)),
                                 bud_month = effective_month month today, bud_limit = limit\<rparr>])
       \<and> (\<forall>fs. snd (set_budget limit month today fs (snd (set_budget limit month today [] db)))
                = snd (set_budget limit month today [] db))"
proof -
  have 1: "distinct (map bud_month (budgets (set_budgets calls db)))"
    by (rule set_budgets_distinct_months [OF assms])
  have 2: "budgets (snd (set_budget limit month today [] db))
                = overwrite_limit b limit (budgets db)
            \<and> length (budgets (snd (set_budget limit month today [] db))) = length (budgets db)
            \<and> map bud_id (budgets (snd (set_budget limit month today [] db)))
                = map bud_id (budgets db)
            \<and> map bud_month (budgets (snd (set_budget limit month today [] db)))
                = map bud_month (budgets db)
            \<and> find (\<lambda>b. bud_month b = effective_month month today)
                 (budgets (snd (set_budget limit month today [] db)))
                = Some (b\<lparr>bud_limit := limit\<rparr>)"
    if "find (\<lambda>b. bud_month b = effective_month month today) (budgets db) = Some b" for b
    using that
    by (simp add: set_budget_existing [OF that] find_overwrite_limit)
       (simp add: overwrite_limit_def)
  have 3: "budgets (snd (set_budget limit month today [] db))
                = budgets db @ [\<lparr>bud_id = next_id (map bud_id (budgets db)),
                                 bud_month = effective_month month today, bud_limit = limit\<rparr>]"
    if "find (\<lambda>b. bud_month b = effective_month month today) (budgets db) = None"
    by (simp add: set_budget_new [OF that])
  show ?thesis
    using 1 2 3 set_budget_repeat by blast
qed

lemma four_calls:
  "budgets (set_budgets [(5000, ''2024-01'', ymd2ord 2024 1 2, []),
                         (6000, ''2024-01'', ymd2ord 2024 1 9, []),
                         (700, ''2024-02'', ymd2ord 2024 1 9, [True]),
                         (800, [], ymd2ord 2024 3 9, [])] empty_db)
   = [\<lparr>bud_id = 1, bud_month = ''2024-01'', bud_limit = 6000\<rparr>,
      \<lparr>bud_id = 2, bud_month = ''2024-03'', bud_limit = 800\<rparr>]"
  by code_simp

theorem set_budget_one_row_per_month_witness:
  "distinct (map bud_month (budgets empty_db))
   \<and> budgets (set_budgets [(5000, ''2024-01'', ymd2ord 2024 1 2, []),
                           (6000, ''2024-01'', ymd2ord 2024 1 9, []),
                           (700, ''2024-02'', ymd2ord 2024 1 9, [True]),
                           (800, [], ymd2ord 2024 3 9, [])] empty_db)
     = [\<lparr>bud_id = 1, bud_month = ''2024-01'', bud_limit = 6000\<rparr>,
        \<lparr>bud_id = 2, bud_month = ''2024-03'', bud_limit = 800\<rparr>]
   \<and> distinct (map bud_month (budgets (set_budgets [(5000, ''2024-01'', ymd2ord 2024 1 2, []),
                           (6000, ''2024-01'', ymd2ord 2024 1 9, []),
                           (700, ''2024-02'', ymd2ord 2024 1 9, [True]),
                           (800, [], ymd2ord 2024 3 9, [])] empty_db)))"
proof -
  have h: "distinct (map bud_month (budgets empty_db))"
    by (simp add: empty_db_def)
  show ?thesis
    using set_budget_one_row_per_month [OF h] h four_calls by blast
qed

section \<open>Category report\<close>

























section \<open>The invariants are kept\<close>

lemma next_id_fresh: "i \<in> set ids \<Longrightarrow> i < next_id ids"
  by (induction ids) (auto simp add: next_id_def)

lemma next_id_not_in: "next_id ids \<notin> set ids"
  using next_id_fresh [of "next_id ids" ids] by auto

lemma valid_db_empty: "valid_db empty_db"
  by (simp add: valid_db_def empty_db_def)

lemma valid_db_add_category:
  "valid_db db \<Longrightarrow>
   valid_db (db\<lparr>categories := categories db @ [new_category db name]\<rparr>)"
  using next_id_not_in [of "map cat_id (categories db)"]
  by (auto simp add: valid_db_def new_category_def list_all_iff)

lemma valid_db_add_expense_row:
  "valid_db db \<Longrightarrow> 0 < expense_amount e \<Longrightarrow>
   expense_category_id e \<in> set (map cat_id (categories db)) \<Longrightarrow>
   valid_db (db\<lparr>expenses := expenses db @ [e]\<rparr>)"
  by (auto simp add: valid_db_def list_all_iff)

lemma find_Some_in: "find P xs = Some x \<Longrightarrow> x \<in> set xs"
  by (induction xs) (auto split: if_splits)

lemma add_expense_valid:
  assumes "valid_db db" and "0 < amount"
  shows "valid_db (snd (add_expense strptime today fs title amount category_name exp_date db))"
proof (cases "find (\<lambda>c. cat_name c = lower (strip category_name)) (categories db)")
  case (Some c)
  then have c: "cat_id c \<in> set (map cat_id (categories db))"
    using find_Some_in [OF Some] by auto
  have g: "get_or_create_category (Session db fs) category_name = (Inr c, Session db fs)"
    by (rule goc_found) (simp add: Session_def Some)
  show ?thesis
    using assms c valid_db_add_expense_row [OF assms(1), of
        "\<lparr>expense_id = next_id (map expense_id (expenses db)), expense_title = strip title,
          expense_amount = amount,
          expense_date = (case parse_date strptime exp_date of Some d \<Rightarrow> d | None \<Rightarrow> today),
          expense_category_id = cat_id c\<rparr>"]
    by (simp add: add_expense_def g Let_def)
       (simp add: Session_def commit_def rollback_def close_def add_expense_row_def Let_def)
next
  case None
  let ?db' = "db\<lparr>categories := categories db @ [new_category db category_name]\<rparr>"
  have v': "valid_db ?db'"
    by (rule valid_db_add_category [OF assms(1)])
  have c: "cat_id (new_category db category_name) \<in> set (map cat_id (categories ?db'))"
    by simp
  show ?thesis
    using assms v' valid_db_add_expense_row [OF v', of
        "\<lparr>expense_id = next_id (map expense_id (expenses db)), expense_title = strip title,
          expense_amount = amount,
          expense_date = (case parse_date strptime exp_date of Some d \<Rightarrow> d | None \<Rightarrow> today),
          expense_category_id = cat_id (new_category db category_name)\<rparr>"]
    by (simp add: add_expense_def get_or_create_category_def None Session_def Let_def
        add_category_def)
       (auto simp add: commit_def rollback_def close_def add_expense_row_def new_category_def
          Let_def)
qed

lemma main_choice_1_valid:
  assumes "valid_db db"
  shows "valid_db (snd (main_choice_1 strptime float today fs title_input amount_input
                          category_input date_input db))"
  using assms add_expense_valid [OF assms]
  by (auto simp add: main_choice_1_def Let_def split: option.splits)

lemma set_budget_valid:
  "valid_db db \<Longrightarrow> valid_db (snd (set_budget limit month today fs db))"
  by (auto simp add: set_budget_def valid_db_def Session_def commit_def rollback_def close_def
      add_budget_row_def Let_def split: option.splits)

section \<open>Searching: what the query guarantees\<close>

text \<open>
  What \<open>search_expenses\<close> does guarantee: the rows printed are the expenses within the
  bounds that were given and parsed, ordered by date descending. The order within one
  date is not part of the query.
\<close>

lemma listed_append: "listed (xs @ ys) = listed xs @ listed ys"
  by (simp add: listed_def List.map_filter_def)

lemma search_expenses_rows:
  assumes "search_expenses strptime start_date end_date db = Inr out"
  shows "listed out
         = map (\<lambda>e. (expense_id e, expense_date e))
             (filter (\<lambda>e. (case parse_date strptime end_date of
                              Some ed \<Rightarrow> expense_date e \<le> ed | None \<Rightarrow> True))
               (filter (\<lambda>e. (case parse_date strptime start_date of
                                Some sd \<Rightarrow> expense_date e \<ge> sd | None \<Rightarrow> True))
                  (sort_key (\<lambda>e. - expense_date e) (expenses db))))"
proof -
  let ?results = "filter (\<lambda>e. (case parse_date strptime end_date of
                              Some ed \<Rightarrow> expense_date e \<le> ed | None \<Rightarrow> True))
               (filter (\<lambda>e. (case parse_date strptime start_date of
                                Some sd \<Rightarrow> expense_date e \<ge> sd | None \<Rightarrow> True))
                  (sort_key (\<lambda>e. - expense_date e) (expenses db)))"
  define out1 where
    "out1 = (if start_date \<noteq> [] \<and> strptime start_date = None then [InvalidStartDate] else [])"
  define out2 where
    "out2 = (if end_date \<noteq> [] \<and> strptime end_date = None then [InvalidEndDate] else [])"
  have shape: "search_expenses strptime start_date end_date db
            = (if ?results = [] then Inr (out1 @ out2 @ [NoExpensesFound])
               else (case print_lines (expense_line db) ?results of
                       Inl e \<Rightarrow> Inl e
                     | Inr ls \<Rightarrow> Inr (out1 @ out2 @ [ExpensesFound (length ?results)] @ ls)))"
    by (cases "start_date = []"; cases "end_date = []";
        cases "strptime start_date"; cases "strptime end_date")
       (simp_all add: search_expenses_def parse_date_def Let_def out1_def out2_def
          cong: sum.case_cong)
  have o1: "listed out1 = []" and o2: "listed out2 = []"
    by (simp_all add: out1_def out2_def listed_def List.map_filter_simps)
  show ?thesis
  proof (cases "?results = []")
    case True
    then have "out = out1 @ out2 @ [NoExpensesFound]"
      using assms shape by simp
    then show ?thesis
      using True o1 o2 by (simp add: listed_append) (simp add: listed_def List.map_filter_simps)
  next
    case False
    then obtain ls where ls: "print_lines (expense_line db) ?results = Inr ls"
      and out: "out = out1 @ out2 @ [ExpensesFound (length ?results)] @ ls"
      using assms shape by (auto split: sum.splits)
    have "listed out = listed ls"
      unfolding out listed_append o1 o2 by (simp add: listed_def List.map_filter_simps)
    then show ?thesis
      using print_lines_listed [OF ls] by simp
  qed
qed

lemma search_expenses_date_descending:
  assumes "search_expenses strptime start_date end_date db = Inr out"
  shows "sorted_wrt (\<lambda>a b. snd a \<ge> snd b) (listed out)"
proof -
  have "sorted (map (\<lambda>e. - expense_date e) (sort_key (\<lambda>e. - expense_date e) (expenses db)))"
    by (rule sorted_sort_key)
  then have "sorted_wrt (\<lambda>a b. expense_date a \<ge> expense_date b)
               (sort_key (\<lambda>e. - expense_date e) (expenses db))"
    by (simp add: sorted_map)
  then show ?thesis
    unfolding search_expenses_rows [OF assms]
    by (simp add: sorted_wrt_map sorted_wrt_filter)
qed

end
